theory Spec2Isabelle
  imports Main
begin

section \<open>Strings\<close>

text \<open>
  A Python string is modelled as a \<^typ>\<open>string\<close> whose characters are the code points
  below 256. The three string methods the module calls are \<open>str.upper\<close>, \<open>str.lower\<close> and
  \<open>str.rstrip\<close>. The case mappings are the ones of the ASCII letters; no attribute name of
  \<open>logging\<close> and no level name of the module holds another character or is reached from
  one, so the lookups they feed are the ones of Python.
\<close>

definition newline :: string where
  "newline = [CHR 0x0A]"

definition ascii_lowercase :: string where
  "ascii_lowercase = ''abcdefghijklmnopqrstuvwxyz''"

definition ascii_uppercase :: string where
  "ascii_uppercase = ''ABCDEFGHIJKLMNOPQRSTUVWXYZ''"

definition upper_char :: "char \<Rightarrow> char" where
  "upper_char c =
     (case map_of (zip ascii_lowercase ascii_uppercase) c of None \<Rightarrow> c | Some u \<Rightarrow> u)"

definition lower_char :: "char \<Rightarrow> char" where
  "lower_char c =
     (case map_of (zip ascii_uppercase ascii_lowercase) c of None \<Rightarrow> c | Some l \<Rightarrow> l)"

definition upper :: "string \<Rightarrow> string" where
  "upper s = map upper_char s"

definition lower :: "string \<Rightarrow> string" where
  "lower s = map lower_char s"

text \<open>
  \<open>str.isspace\<close> on one character below 256: TAB, LF, VT, FF, CR, FS, GS, RS, US, SPACE,
  NEL (0x85) and the no-break space (0xA0).
\<close>

definition isspace :: "char \<Rightarrow> bool" where
  "isspace c \<longleftrightarrow>
     c \<in> set [CHR 0x09, CHR 0x0A, CHR 0x0B, CHR 0x0C, CHR 0x0D,
               CHR 0x1C, CHR 0x1D, CHR 0x1E, CHR 0x1F, CHR 0x20, CHR 0x85, CHR 0xA0]"

definition rstrip :: "string \<Rightarrow> string" where
  "rstrip s = rev (dropWhile isspace (rev s))"

section \<open>Paths and dates\<close>

text \<open>
  A \<open>pathlib\<close> path (POSIX flavour) is its anchor (empty, one slash or two) and its list of
  components. Parsing a string drops empty components and single dots, keeps double dots.
\<close>

record path =
  anchor :: string
  parts :: "string list"

fun split_sep :: "string \<Rightarrow> string list" where
  "split_sep [] = [[]]"
| "split_sep (c # cs) =
     (if c = CHR ''/'' then [] # split_sep cs
      else (case split_sep cs of [] \<Rightarrow> [[c]] | w # ws \<Rightarrow> (c # w) # ws))"

definition parse_root :: "string \<Rightarrow> string" where
  "parse_root s =
     (let n = length (takeWhile (\<lambda>c. c = CHR ''/'') s)
      in if n = 0 then [] else if n = 2 then ''//'' else ''/'')"

definition parse_parts :: "string \<Rightarrow> string list" where
  "parse_parts s = filter (\<lambda>p. p \<noteq> [] \<and> p \<noteq> ''.'') (split_sep s)"

definition Path :: "string \<Rightarrow> path" where
  "Path s = \<lparr>anchor = parse_root s, parts = parse_parts s\<rparr>"

text \<open>The operator \<open>/\<close> of \<open>pathlib\<close>: an absolute right operand replaces the left one.\<close>

definition joinpath :: "path \<Rightarrow> string \<Rightarrow> path" where
  "joinpath p s =
     (if parse_root s \<noteq> [] then Path s
      else \<lparr>anchor = anchor p, parts = parts p @ parse_parts s\<rparr>)"

definition parent :: "path \<Rightarrow> path" where
  "parent p = p\<lparr>parts := butlast (parts p)\<rparr>"

text \<open>The path itself and every proper ancestor that has at least one component.\<close>

definition ancestors_and_self :: "path \<Rightarrow> path list" where
  "ancestors_and_self p = map (\<lambda>k. p\<lparr>parts := take k (parts p)\<rparr>) [1..<Suc (length (parts p))]"

text \<open>
  \<open>date.today().isoformat()\<close>: the format \<open>%04d-%02d-%02d\<close>; the class \<open>date\<close> keeps the
  year within 1..9999, the month within 1..12 and the day within 1..31.
\<close>

record date =
  year :: nat
  month :: nat
  day :: nat

definition digit :: "nat \<Rightarrow> char" where
  "digit n = ''0123456789'' ! (n mod 10)"

definition isoformat :: "date \<Rightarrow> string" where
  "isoformat d =
     [digit (year d div 1000), digit (year d div 100), digit (year d div 10), digit (year d)]
     @ ''-'' @ [digit (month d div 10), digit (month d)]
     @ ''-'' @ [digit (day d div 10), digit (day d)]"

section \<open>The logging backend\<close>

text \<open>
  The module drives Python's \<open>logging\<close> package. The part of it that the module reaches is
  modelled here: the four severities its methods emit, handler thresholds, the attribute
  lookup \<open>getattr(logging, NAME, default)\<close> and the level check of \<open>Handler.setLevel\<close>.
\<close>

datatype error = RuntimeError string | ValueError | TypeError | OSError | RecursionError

datatype severity = DEBUG | INFO | WARNING | ERROR

fun levelno :: "severity \<Rightarrow> int" where
  "levelno DEBUG = 10"
| "levelno INFO = 20"
| "levelno WARNING = 30"
| "levelno ERROR = 40"

fun levelname :: "severity \<Rightarrow> string" where
  "levelname DEBUG = ''DEBUG''"
| "levelname INFO = ''INFO''"
| "levelname WARNING = ''WARNING''"
| "levelname ERROR = ''ERROR''"

text \<open>
  The attributes of the package \<open>logging\<close> whose names contain no lower-case letter. A name
  produced by \<open>str.upper\<close> cannot be any other attribute: eight level numbers, the string
  \<open>BASIC_FORMAT\<close> and the dictionary \<open>_STYLES\<close>.
\<close>

datatype attr = IntAttr int | StrAttr string | ObjAttr

definition logging_attr :: "string \<Rightarrow> attr option" where
  "logging_attr n =
     (if n = ''CRITICAL'' then Some (IntAttr 50)
      else if n = ''FATAL'' then Some (IntAttr 50)
      else if n = ''ERROR'' then Some (IntAttr 40)
      else if n = ''WARNING'' then Some (IntAttr 30)
      else if n = ''WARN'' then Some (IntAttr 30)
      else if n = ''INFO'' then Some (IntAttr 20)
      else if n = ''DEBUG'' then Some (IntAttr 10)
      else if n = ''NOTSET'' then Some (IntAttr 0)
      else if n = ''BASIC_FORMAT'' then Some (StrAttr ''%(levelname)s:%(name)s:%(message)s'')
      else if n = ''_STYLES'' then Some ObjAttr
      else None)"

definition getattr_logging :: "string \<Rightarrow> int \<Rightarrow> attr" where
  "getattr_logging n dflt = (case logging_attr n of Some a \<Rightarrow> a | None \<Rightarrow> IntAttr dflt)"

text \<open>
  \<open>Handler.setLevel\<close> accepts an integer, or a string that is a level name, and raises
  \<open>ValueError\<close> on any other string and \<open>TypeError\<close> on any other object.
\<close>

definition checkLevel :: "attr \<Rightarrow> error + int" where
  "checkLevel a =
     (case a of
        IntAttr i \<Rightarrow> Inr i
      | StrAttr s \<Rightarrow>
          (case logging_attr s of Some (IntAttr i) \<Rightarrow> Inr i | _ \<Rightarrow> Inl ValueError)
      | ObjAttr \<Rightarrow> Inl TypeError)"

text \<open>
  \<open>logging.getLogger(name)\<close> is the root logger for an empty name and for the name
  \<open>root\<close>, and a named logger below the root otherwise. Named loggers keep their
  defaults (level \<open>NOTSET\<close>, no handler, propagation on): the module never changes them.
\<close>

datatype logger = RootLogger | NamedLogger string

definition getLogger :: "string \<Rightarrow> logger" where
  "getLogger n = (if n = [] \<or> n = ''root'' then RootLogger else NamedLogger n)"

fun logger_name :: "logger \<Rightarrow> string" where
  "logger_name RootLogger = ''root''"
| "logger_name (NamedLogger n) = n"

section \<open>Process state\<close>

datatype chan = Stdout | Stderr

text \<open>
  A stream object is one of the two channels the interpreter started with
  (\<open>sys.__stdout__\<close>, \<open>sys.__stderr__\<close>) or a \<open>StreamToLogger\<close> shim with its two fields.
\<close>

datatype stream = Real chan | StreamToLogger logger stream

datatype handler = FileHandler path int | StreamHandler stream int

record LoggerLHC =
  app_name :: string
  log_root :: path
  date_folder :: path
  log_file :: path
  root_logger :: logger
  logger :: logger

record log_record =
  rec_name :: string
  rec_level :: severity
  rec_msg :: string

text \<open>
  The globals the module reads and writes: its own \<open>_logger_instance\<close>, the root logger's
  level and handler list, the slots \<open>sys.stdout\<close> and \<open>sys.stderr\<close>; what the module acts on:
  the chunks written so far to each real channel, the directories and the files (each file
  as the list of chunks appended to it), the paths at which the system refuses to create or
  open; and what it reads from its surroundings: the calendar date, the working directory
  and the formatted time of the clock.
\<close>

record pstate =
  logger_instance :: "LoggerLHC option"
  root_level :: int
  root_handlers :: "handler list"
  sys_stdout :: stream
  sys_stderr :: stream
  terminal :: "chan \<Rightarrow> string list"
  fs_dirs :: "path set"
  fs_files :: "path \<Rightarrow> string list option"
  fs_denied :: "path set"
  today :: date
  cwd :: path
  clock :: string

text \<open>
  A call returns the new state or raises: an exception comes with the state the call had
  reached, since what was done before the raise stays done.
\<close>

type_synonym result = "(error \<times> pstate) + pstate"

text \<open>The formatter \<open>%(asctime)s [%(levelname)s] [%(name)s] %(message)s\<close>.\<close>

definition format_record :: "pstate \<Rightarrow> log_record \<Rightarrow> string" where
  "format_record st r =
     clock st @ '' ['' @ levelname (rec_level r) @ ''] ['' @ rec_name r @ ''] '' @ rec_msg r"

definition file_append :: "path \<Rightarrow> string \<Rightarrow> pstate \<Rightarrow> pstate" where
  "file_append p s st =
     st\<lparr>fs_files := (fs_files st)(p := Some ((case fs_files st p of None \<Rightarrow> [] | Some c \<Rightarrow> c) @ [s]))\<rparr>"

definition terminal_append :: "chan \<Rightarrow> string \<Rightarrow> pstate \<Rightarrow> pstate" where
  "terminal_append c s st = st\<lparr>terminal := (terminal st)(c := terminal st c @ [s])\<rparr>"

section \<open>Emitting records and writing to streams\<close>

text \<open>
  Writing to a stream object dispatches on its class. \<open>StreamToLogger.write\<close> logs through
  the root logger, whose handlers write to stream objects again, so the three functions are
  mutually recursive. The first argument is the number of nested calls of
  \<open>StreamToLogger.write\<close> the interpreter still allows; when it is used up Python raises
  \<open>RecursionError\<close>, which \<open>StreamHandler.emit\<close> lets through.

  \<open>Logger_log\<close> is \<open>Logger.debug\<close>, \<open>info\<close>, \<open>warning\<close> and \<open>error\<close>: the record is made if the
  severity clears the effective level, which is the root logger's whatever the logger, and
  is offered to the root logger's handlers, to which every logger propagates.
\<close>

fun stream_write :: "nat \<Rightarrow> stream \<Rightarrow> string \<Rightarrow> pstate \<Rightarrow> result"
  and Logger_log :: "nat \<Rightarrow> severity \<Rightarrow> logger \<Rightarrow> string \<Rightarrow> pstate \<Rightarrow> result"
  and callHandlers :: "nat \<Rightarrow> handler list \<Rightarrow> log_record \<Rightarrow> pstate \<Rightarrow> result"
where
  "stream_write d (Real c) s st = Inr (terminal_append c s st)"
| "stream_write 0 (StreamToLogger lg strm) s st = Inl (RecursionError, st)"
| "stream_write (Suc d) (StreamToLogger lg strm) s st =
     (let message = rstrip s in
      if message = [] then Inr st
      else (case stream_write d strm (message @ newline) st of
              Inl e \<Rightarrow> Inl e
            | Inr st1 \<Rightarrow> Logger_log d INFO lg message st1))"
| "Logger_log d sev lg m st =
     (if root_level st \<le> levelno sev
      then callHandlers d (root_handlers st)
             \<lparr>rec_name = logger_name lg, rec_level = sev, rec_msg = m\<rparr> st
      else Inr st)"
| "callHandlers d [] r st = Inr st"
| "callHandlers d (FileHandler p l # hs) r st =
     (if l \<le> levelno (rec_level r)
      then callHandlers d hs r (file_append p (format_record st r @ newline) st)
      else callHandlers d hs r st)"
| "callHandlers d (StreamHandler strm l # hs) r st =
     (if l \<le> levelno (rec_level r)
      then (case stream_write d strm (format_record st r @ newline) st of
              Inl e \<Rightarrow> Inl e
            | Inr st1 \<Rightarrow> callHandlers d hs r st1)
      else callHandlers d hs r st)"

section \<open>The file system\<close>

text \<open>
  \<open>Path.mkdir(parents=True, exist_ok=True)\<close> creates the missing ancestors from the top
  and then the directory, accepts the ones that exist, and raises \<open>OSError\<close> at the first
  component that is a regular file or that the system refuses to create; the directories
  made before that stay.
\<close>

fun mkdirs :: "path list \<Rightarrow> pstate \<Rightarrow> result" where
  "mkdirs [] st = Inr st"
| "mkdirs (q # qs) st =
     (if fs_files st q \<noteq> None then Inl (OSError, st)
      else if q \<in> fs_dirs st then mkdirs qs st
      else if q \<in> fs_denied st then Inl (OSError, st)
      else mkdirs qs (st\<lparr>fs_dirs := insert q (fs_dirs st)\<rparr>))"

definition mkdir_parents :: "path \<Rightarrow> pstate \<Rightarrow> result" where
  "mkdir_parents p st = mkdirs (ancestors_and_self p) st"

text \<open>
  \<open>logging.FileHandler(p, mode='a', encoding='utf-8')\<close> opens the file at once, for
  appending: the file is created empty if it does not exist and keeps its content if it
  does. Opening raises \<open>OSError\<close> when the path is a directory, when its parent directory
  does not exist, or when the system refuses.
\<close>

definition FileHandler_open :: "path \<Rightarrow> pstate \<Rightarrow> result" where
  "FileHandler_open p st =
     (if parts p = [] \<or> p \<in> fs_dirs st then Inl (OSError, st)
      else if parts (parent p) \<noteq> [] \<and> parent p \<notin> fs_dirs st then Inl (OSError, st)
      else if p \<in> fs_denied st then Inl (OSError, st)
      else Inr (st\<lparr>fs_files :=
                     (fs_files st)(p := Some (case fs_files st p of None \<Rightarrow> [] | Some c \<Rightarrow> c))\<rparr>))"

section \<open>LoggerLHC\<close>

text \<open>The argument \<open>log_root\<close> has the type \<open>Path | str | None\<close>.\<close>

datatype root_arg = RootNone | RootStr string | RootPath path

text \<open>\<open>Path(log_root or Path.cwd())\<close>: \<open>None\<close> and the empty string are false, a path never is.\<close>

fun root_or_cwd :: "root_arg \<Rightarrow> pstate \<Rightarrow> path" where
  "root_or_cwd RootNone st = cwd st"
| "root_or_cwd (RootStr s) st = (if s = [] then cwd st else Path s)"
| "root_or_cwd (RootPath p) st = p"

text \<open>
  \<open>LoggerLHC._setup_handlers\<close>: the file handler, then the console handler on the value
  the slot \<open>sys.stdout\<close> holds at that moment, each appended to the root logger's handlers.
  When the file level is rejected the file is open already; when the console level is
  rejected the file handler is on the root logger already.
\<close>

definition setup_handlers :: "LoggerLHC \<Rightarrow> string \<Rightarrow> string \<Rightarrow> pstate \<Rightarrow> result" where
  "setup_handlers self file_level console_level st =
     (case FileHandler_open (log_file self) st of
        Inl e \<Rightarrow> Inl e
      | Inr st1 \<Rightarrow>
          (case checkLevel (getattr_logging (upper file_level) (levelno DEBUG)) of
             Inl e \<Rightarrow> Inl (e, st1)
           | Inr fl \<Rightarrow>
               (let st2 = st1\<lparr>root_handlers := root_handlers st1 @ [FileHandler (log_file self) fl]\<rparr>
                in case checkLevel (getattr_logging (upper console_level) (levelno INFO)) of
                     Inl e \<Rightarrow> Inl (e, st2)
                   | Inr cl \<Rightarrow>
                       Inr (st2\<lparr>root_handlers :=
                                  root_handlers st2 @ [StreamHandler (sys_stdout st2) cl]\<rparr>))))"

text \<open>\<open>StreamToLogger.__init__\<close>: \<open>self.stream = stream or sys.__stdout__\<close>.\<close>

definition StreamToLogger_init :: "logger \<Rightarrow> stream option \<Rightarrow> stream" where
  "StreamToLogger_init lg strm =
     StreamToLogger lg (case strm of None \<Rightarrow> Real Stdout | Some s \<Rightarrow> s)"

text \<open>\<open>LoggerLHC._capture_prints\<close>: both slots get a shim built without a stream argument.\<close>

definition capture_prints :: "LoggerLHC \<Rightarrow> pstate \<Rightarrow> pstate" where
  "capture_prints self st =
     st\<lparr>sys_stdout := StreamToLogger_init (root_logger self) None,
        sys_stderr := StreamToLogger_init (root_logger self) None\<rparr>"

text \<open>\<open>LoggerLHC.__init__\<close>.\<close>

definition LoggerLHC_init ::
  "string \<Rightarrow> root_arg \<Rightarrow> string \<Rightarrow> string \<Rightarrow> pstate \<Rightarrow> result" where
  "LoggerLHC_init app rt file_level console_level st =
     (if logger_instance st \<noteq> None then Inr st
      else
        (let lr = joinpath (root_or_cwd rt st) ''logs'';
             df = joinpath lr (isoformat (today st))
         in case mkdir_parents df st of
              Inl e \<Rightarrow> Inl e
            | Inr st1 \<Rightarrow>
                (let self = \<lparr>app_name = app, log_root = lr, date_folder = df,
                             log_file = joinpath df (app @ ''.log''),
                             root_logger = RootLogger, logger = getLogger app\<rparr>;
                     st2 = st1\<lparr>root_level := levelno DEBUG\<rparr>
                 in case setup_handlers self file_level console_level st2 of
                      Inl e \<Rightarrow> Inl e
                    | Inr st3 \<Rightarrow> Inr ((capture_prints self st3)\<lparr>logger_instance := Some self\<rparr>))))"

text \<open>The four shortcut methods of \<open>LoggerLHC\<close>.\<close>

definition LoggerLHC_info :: "nat \<Rightarrow> LoggerLHC \<Rightarrow> string \<Rightarrow> pstate \<Rightarrow> result" where
  "LoggerLHC_info d self m st = Logger_log d INFO (logger self) m st"

definition LoggerLHC_debug :: "nat \<Rightarrow> LoggerLHC \<Rightarrow> string \<Rightarrow> pstate \<Rightarrow> result" where
  "LoggerLHC_debug d self m st = Logger_log d DEBUG (logger self) m st"

definition LoggerLHC_warning :: "nat \<Rightarrow> LoggerLHC \<Rightarrow> string \<Rightarrow> pstate \<Rightarrow> result" where
  "LoggerLHC_warning d self m st = Logger_log d WARNING (logger self) m st"

definition LoggerLHC_error :: "nat \<Rightarrow> LoggerLHC \<Rightarrow> string \<Rightarrow> pstate \<Rightarrow> result" where
  "LoggerLHC_error d self m st = Logger_log d ERROR (logger self) m st"

section \<open>The shortcut object\<close>

text \<open>\<open>_log_func\<close> and the four methods of \<open>_LogHelper\<close>.\<close>

definition log_func :: "nat \<Rightarrow> string \<Rightarrow> string \<Rightarrow> pstate \<Rightarrow> result" where
  "log_func d m level st =
     (case logger_instance st of
        None \<Rightarrow>
          Inl (RuntimeError ''Logger not initialized! Call LoggerLHC(app_name, ...) first.'', st)
      | Some inst \<Rightarrow>
          (let level = lower level in
           if level = ''debug'' then LoggerLHC_debug d inst m st
           else if level = ''warning'' then LoggerLHC_warning d inst m st
           else if level = ''error'' then LoggerLHC_error d inst m st
           else LoggerLHC_info d inst m st))"

definition LogHelper_info :: "nat \<Rightarrow> string \<Rightarrow> pstate \<Rightarrow> result" where
  "LogHelper_info d m st = log_func d m ''info'' st"

definition LogHelper_debug :: "nat \<Rightarrow> string \<Rightarrow> pstate \<Rightarrow> result" where
  "LogHelper_debug d m st = log_func d m ''debug'' st"

definition LogHelper_warning :: "nat \<Rightarrow> string \<Rightarrow> pstate \<Rightarrow> result" where
  "LogHelper_warning d m st = log_func d m ''warning'' st"

definition LogHelper_error :: "nat \<Rightarrow> string \<Rightarrow> pstate \<Rightarrow> result" where
  "LogHelper_error d m st = log_func d m ''error'' st"

section \<open>A process that has not touched logging\<close>

text \<open>
  The interpreter starts with no instance published, the root logger without handlers and
  the two slots on the real channels.
\<close>

definition fresh :: "pstate \<Rightarrow> bool" where
  "fresh st \<longleftrightarrow>
     logger_instance st = None \<and> root_handlers st = []
     \<and> sys_stdout st = Real Stdout \<and> sys_stderr st = Real Stderr"

definition startup :: pstate where
  "startup =
     \<lparr>logger_instance = None, root_level = levelno WARNING, root_handlers = [],
      sys_stdout = Real Stdout, sys_stderr = Real Stderr,
      terminal = (\<lambda>c. []), fs_dirs = {}, fs_files = (\<lambda>p. None), fs_denied = {},
      today = \<lparr>year = 2026, month = 11, day = 4\<rparr>,
      cwd = Path ''/home/lhc'', clock = ''2026-11-04 12:00:00''\<rparr>"

text \<open>A program that calls the constructor several times; an exception ends it.\<close>

fun run_inits :: "(string \<times> root_arg \<times> string \<times> string) list \<Rightarrow> pstate \<Rightarrow> result" where
  "run_inits [] st = Inr st"
| "run_inits ((app, rt, file_level, console_level) # calls) st =
     (case LoggerLHC_init app rt file_level console_level st of
        Inl e \<Rightarrow> Inl e
      | Inr st1 \<Rightarrow> run_inits calls st1)"

text \<open>
  The state \<open>startup\<close> after \<open>LoggerLHC("svc", "/tmp/x")\<close> with the default levels.
\<close>

definition svc_log :: path where
  "svc_log = \<lparr>anchor = ''/'', parts = [''tmp'', ''x'', ''logs'', ''2026-11-04'', ''svc.log'']\<rparr>"

definition svc :: LoggerLHC where
  "svc = \<lparr>app_name = ''svc'',
           log_root = \<lparr>anchor = ''/'', parts = [''tmp'', ''x'', ''logs'']\<rparr>,
           date_folder = \<lparr>anchor = ''/'', parts = [''tmp'', ''x'', ''logs'', ''2026-11-04'']\<rparr>,
           log_file = svc_log, root_logger = RootLogger, logger = NamedLogger ''svc''\<rparr>"

definition svc_dirs :: "path set" where
  "svc_dirs = {\<lparr>anchor = ''/'', parts = [''tmp'']\<rparr>,
               \<lparr>anchor = ''/'', parts = [''tmp'', ''x'']\<rparr>,
               \<lparr>anchor = ''/'', parts = [''tmp'', ''x'', ''logs'']\<rparr>,
               \<lparr>anchor = ''/'', parts = [''tmp'', ''x'', ''logs'', ''2026-11-04'']\<rparr>}"

definition running :: pstate where
  "running = startup
     \<lparr>logger_instance := Some svc, root_level := 10,
      root_handlers := [FileHandler svc_log 10, StreamHandler (Real Stdout) 20],
      sys_stdout := StreamToLogger RootLogger (Real Stdout),
      sys_stderr := StreamToLogger RootLogger (Real Stdout),
      fs_dirs := svc_dirs,
      fs_files := (\<lambda>p. None)(svc_log := Some [])\<rparr>"

text \<open>
  The state \<open>running\<close> after a write of \<open>text\<close> through a shim on the real standard
  output while both thresholds let \<open>INFO\<close> pass: the echo, the record in the file, the
  record on the console.
\<close>

definition after_write :: "string \<Rightarrow> pstate" where
  "after_write text =
     terminal_append Stdout (''2026-11-04 12:00:00 [INFO] [root] '' @ text @ newline)
       (file_append svc_log (''2026-11-04 12:00:00 [INFO] [root] '' @ text @ newline)
          (terminal_append Stdout (text @ newline) running))"

text \<open>
  The same construction with the two level strings giving the thresholds \<open>lf\<close> and \<open>lc\<close>.
\<close>

definition configured :: "int \<Rightarrow> int \<Rightarrow> pstate" where
  "configured lf lc =
     running\<lparr>root_handlers := [FileHandler svc_log lf, StreamHandler (Real Stdout) lc]\<rparr>"

text \<open>
  The states in which \<open>LoggerLHC("svc", "/tmp/x", ...)\<close> leaves \<open>startup\<close> when it raises:
  \<open>file_opened\<close> when the file level is rejected, \<open>half_built\<close> when the file level is
  \<open>debug\<close> and the console level is rejected. \<open>rebuilt\<close> is \<open>half_built\<close> after a second,
  successful \<open>LoggerLHC("svc", "/tmp/x", "error", "info")\<close>.
\<close>

definition file_opened :: pstate where
  "file_opened = startup\<lparr>root_level := 10, fs_dirs := svc_dirs,
                          fs_files := (\<lambda>p. None)(svc_log := Some [])\<rparr>"



section \<open>Evaluation on the example\<close>

lemma isoformat_example: "isoformat \<lparr>year = 2026, month = 11, day = 4\<rparr> = ''2026-11-04''"
  by (simp add: isoformat_def digit_def)

lemma upper_examples:
  "upper ''debug'' = ''DEBUG''" "upper ''info'' = ''INFO''"
  "upper ''basic_format'' = ''BASIC_FORMAT''"
  "upper ''Warning'' = ''WARNING''" "upper ''error'' = ''ERROR''" "upper ''ERROR'' = ''ERROR''"
  "upper ''Info'' = ''INFO''"
  by (simp_all add: upper_def upper_char_def ascii_lowercase_def ascii_uppercase_def)

lemma lower_examples:
  "lower ''info'' = ''info''" "lower ''debug'' = ''debug''"
  "lower ''warning'' = ''warning''" "lower ''error'' = ''error''"
  by (simp_all add: lower_def lower_char_def ascii_lowercase_def ascii_uppercase_def)

lemma Path_example: "Path ''/tmp/x'' = \<lparr>anchor = ''/'', parts = [''tmp'', ''x'']\<rparr>"
  by (simp add: Path_def parse_root_def parse_parts_def)

lemma joinpath_examples:
  "joinpath p ''logs'' = \<lparr>anchor = anchor p, parts = parts p @ [''logs'']\<rparr>"
  "joinpath p ''2026-11-04'' = \<lparr>anchor = anchor p, parts = parts p @ [''2026-11-04'']\<rparr>"
  "joinpath p ''svc.log'' = \<lparr>anchor = anchor p, parts = parts p @ [''svc.log'']\<rparr>"
  by (simp_all add: joinpath_def parse_root_def parse_parts_def)

lemma ancestors_list_example:
  "ancestors_and_self \<lparr>anchor = ''/'', parts = [''tmp'', ''x'', ''logs'', ''2026-11-04'']\<rparr>
   = [\<lparr>anchor = ''/'', parts = [''tmp'']\<rparr>,
      \<lparr>anchor = ''/'', parts = [''tmp'', ''x'']\<rparr>,
      \<lparr>anchor = ''/'', parts = [''tmp'', ''x'', ''logs'']\<rparr>,
      \<lparr>anchor = ''/'', parts = [''tmp'', ''x'', ''logs'', ''2026-11-04'']\<rparr>]"
  by (simp add: ancestors_and_self_def upt_rec)

lemma ancestors_example:
  "set (ancestors_and_self \<lparr>anchor = ''/'', parts = [''tmp'', ''x'', ''logs'', ''2026-11-04'']\<rparr>)
   = svc_dirs"
  by (simp add: ancestors_list_example svc_dirs_def)

lemma mkdirs_made: "mkdirs qs st = Inr st' \<Longrightarrow> st' = st\<lparr>fs_dirs := fs_dirs st \<union> set qs\<rparr>"
proof (induction qs arbitrary: st)
  case Nil
  then show ?case by simp
next
  case (Cons q qs)
  show ?case
  proof (cases "q \<in> fs_dirs st")
    case True
    with Cons.prems have "mkdirs qs st = Inr st'"
      by (simp split: if_splits)
    from Cons.IH[OF this] True show ?thesis
      by (simp add: insert_absorb)
  next
    case False
    with Cons.prems have "mkdirs qs (st\<lparr>fs_dirs := insert q (fs_dirs st)\<rparr>) = Inr st'"
      by (simp split: if_splits)
    from Cons.IH[OF this] show ?thesis
      by simp
  qed
qed


lemma mkdir_example:
  "mkdir_parents \<lparr>anchor = ''/'', parts = [''tmp'', ''x'', ''logs'', ''2026-11-04'']\<rparr> startup
   = Inr (startup\<lparr>fs_dirs := svc_dirs\<rparr>)"
proof -
  have "mkdirs [\<lparr>anchor = ''/'', parts = [''tmp'']\<rparr>,
      \<lparr>anchor = ''/'', parts = [''tmp'', ''x'']\<rparr>,
      \<lparr>anchor = ''/'', parts = [''tmp'', ''x'', ''logs'']\<rparr>,
      \<lparr>anchor = ''/'', parts = [''tmp'', ''x'', ''logs'', ''2026-11-04'']\<rparr>] startup
    = Inr (startup\<lparr>fs_dirs := svc_dirs\<rparr>)"
    by (simp add: startup_def svc_dirs_def insert_commute)
  then show ?thesis
    by (simp add: mkdir_parents_def ancestors_list_example)
qed

lemma checkLevel_examples:
  "checkLevel (getattr_logging ''DEBUG'' 10) = Inr 10"
  "checkLevel (getattr_logging ''INFO'' 20) = Inr 20"
  "checkLevel (getattr_logging ''BASIC_FORMAT'' 10) = Inl ValueError"
  "checkLevel (getattr_logging ''BASIC_FORMAT'' 20) = Inl ValueError"
  by (simp_all add: checkLevel_def getattr_logging_def logging_attr_def)

lemma FileHandler_open_example:
  "FileHandler_open svc_log (startup\<lparr>fs_dirs := svc_dirs, root_level := 10\<rparr>) = Inr file_opened"
  by (simp add: FileHandler_open_def svc_log_def svc_dirs_def parent_def startup_def
      file_opened_def)

lemma setup_handlers_levels:
  assumes "checkLevel (getattr_logging (upper fl) 10) = Inr lf"
    and "checkLevel (getattr_logging (upper cl) 20) = Inr lc"
  shows "setup_handlers svc fl cl (startup\<lparr>fs_dirs := svc_dirs, root_level := 10\<rparr>)
   = Inr (file_opened\<lparr>root_handlers := [FileHandler svc_log lf, StreamHandler (Real Stdout) lc]\<rparr>)"
  unfolding setup_handlers_def
  apply (simp add: svc_def FileHandler_open_example assms)
  apply (simp add: startup_def file_opened_def)
  done

lemma startup_fields:
  "logger_instance startup = None" "today startup = \<lparr>year = 2026, month = 11, day = 4\<rparr>"
  by (simp_all add: startup_def)

lemma getLogger_svc: "getLogger ''svc'' = NamedLogger ''svc''"
  by (simp add: getLogger_def)

lemma init_startup_levels:
  assumes "checkLevel (getattr_logging (upper fl) 10) = Inr lf"
    and "checkLevel (getattr_logging (upper cl) 20) = Inr lc"
  shows "LoggerLHC_init ''svc'' (RootStr ''/tmp/x'') fl cl startup = Inr (configured lf lc)"
  unfolding LoggerLHC_init_def
  apply (simp add: startup_fields isoformat_example Path_example joinpath_examples
      mkdir_example getLogger_svc Let_def)
  apply (simp add: setup_handlers_levels[OF assms, unfolded svc_def svc_log_def] capture_prints_def
      StreamToLogger_init_def)
  apply (simp add: configured_def running_def svc_def svc_log_def startup_def file_opened_def)
  done

lemma configured_default: "configured 10 20 = running"
  by (simp add: configured_def running_def)

lemma init_startup:
  "LoggerLHC_init ''svc'' (RootStr ''/tmp/x'') ''debug'' ''info'' startup = Inr running"
  using init_startup_levels[of "''debug''" 10 "''info''" 20]
  by (simp add: upper_examples checkLevel_examples configured_default)

lemma init_file_level_rejected:
  "LoggerLHC_init ''svc'' (RootStr ''/tmp/x'') ''basic_format'' ''info'' startup
   = Inl (ValueError, file_opened)"
proof -
  have "setup_handlers svc ''basic_format'' ''info''
          (startup\<lparr>fs_dirs := svc_dirs, root_level := 10\<rparr>) = Inl (ValueError, file_opened)"
    unfolding setup_handlers_def
    by (simp add: svc_def FileHandler_open_example upper_examples checkLevel_examples)
  then show ?thesis
    unfolding LoggerLHC_init_def
    by (simp add: startup_fields isoformat_example Path_example joinpath_examples
        mkdir_example getLogger_svc Let_def svc_def svc_log_def)
qed






section \<open>The singleton guard\<close>

lemma init_again: "logger_instance st \<noteq> None \<Longrightarrow> LoggerLHC_init app rt fl cl st = Inr st"
  by (simp add: LoggerLHC_init_def)

lemma init_publishes: "LoggerLHC_init app rt fl cl st = Inr st1 \<Longrightarrow> logger_instance st1 \<noteq> None"
  by (auto simp: LoggerLHC_init_def Let_def split: if_splits sum.splits)

lemma run_inits_again: "logger_instance st \<noteq> None \<Longrightarrow> run_inits calls st = Inr st"
  by (induction calls) (auto simp: init_again)

text \<open>
  Claim C2. Once a construction call has returned, every later construction call, whatever
  its arguments, returns without an exception and leaves the whole state as the first call
  left it: the published instance and its attributes, the root logger's level and
  handlers, the two stream slots, the files. A program that makes the first call and then
  any further calls ends in the state of the first call.
\<close>

theorem later_constructions_change_nothing:
  assumes "LoggerLHC_init app rt fl cl st0 = Inr st1"
  shows "run_inits ((app, rt, fl, cl) # calls) st0 = Inr st1
       \<and> (\<forall>c \<in> set calls.
            case c of (app', rt', fl', cl') \<Rightarrow> LoggerLHC_init app' rt' fl' cl' st1 = Inr st1)"
  using assms init_publishes[OF assms] by (auto simp: run_inits_again init_again)

theorem later_constructions_change_nothing_witness:
  "LoggerLHC_init ''svc'' (RootStr ''/tmp/x'') ''debug'' ''info'' startup = Inr running
   \<and> run_inits [(''svc'', RootStr ''/tmp/x'', ''debug'', ''info''),
                 (''other'', RootStr ''/srv'', ''error'', ''warning''),
                 (''third'', RootNone, ''bogus'', ''basic_format'')] startup = Inr running
   \<and> LoggerLHC_init ''other'' (RootStr ''/srv'') ''error'' ''warning'' running = Inr running
   \<and> LoggerLHC_init ''third'' RootNone ''bogus'' ''basic_format'' running = Inr running
   \<and> map_option app_name (logger_instance running) = Some ''svc''"
  using later_constructions_change_nothing[OF init_startup,
      of "[(''other'', RootStr ''/srv'', ''error'', ''warning''),
           (''third'', RootNone, ''bogus'', ''basic_format'')]"]
    init_startup
  by (simp add: running_def svc_def)

section \<open>Severity strings\<close>

text \<open>
  What the lookup does by design: a name that is no attribute of \<open>logging\<close> gives the
  default, an attribute that is a level number gives that number, and so a string that is
  the name of a severity in any letter case gives the number of that severity.
\<close>

lemma unknown_name_falls_back:
  "logging_attr (upper s) = None \<Longrightarrow> checkLevel (getattr_logging (upper s) dflt) = Inr dflt"
  by (simp add: getattr_logging_def checkLevel_def)

lemma level_name_selects_level:
  "logging_attr (upper s) = Some (IntAttr i) \<Longrightarrow>
   checkLevel (getattr_logging (upper s) dflt) = Inr i"
  by (simp add: getattr_logging_def checkLevel_def)


text \<open>
  Claim C8. A severity string that names no level is meant to fall back to the default.
  The string \<open>basic_format\<close> names no level, but its upper-case form is an attribute of
  \<open>logging\<close>, a format string, which \<open>setLevel\<close> rejects: the constructor raises
  \<open>ValueError\<close> instead of falling back to \<open>DEBUG\<close>, with the directories made and the
  log file opened.
\<close>

theorem unknown_level_attribute_raises:
  "LoggerLHC_init ''svc'' (RootStr ''/tmp/x'') ''basic_format'' ''info'' startup
   = Inl (ValueError,
          startup\<lparr>root_level := 10, fs_dirs := svc_dirs,
                  fs_files := (\<lambda>p. None)(svc_log := Some [])\<rparr>)"
  using init_file_level_rejected by (simp add: file_opened_def)

section \<open>What a successful construction establishes\<close>

lemma mkdir_parents_made:
  "mkdir_parents p st = Inr st' \<Longrightarrow> st' = st\<lparr>fs_dirs := fs_dirs st \<union> set (ancestors_and_self p)\<rparr>"
  unfolding mkdir_parents_def by (rule mkdirs_made)

lemma init_shape:
  assumes "logger_instance st0 = None"
    and "LoggerLHC_init app rt fl cl st0 = Inr st"
  shows "\<exists>lf lc self.
      checkLevel (getattr_logging (upper fl) (levelno DEBUG)) = Inr lf
    \<and> checkLevel (getattr_logging (upper cl) (levelno INFO)) = Inr lc
    \<and> self = \<lparr>app_name = app, log_root = joinpath (root_or_cwd rt st0) ''logs'',
               date_folder = joinpath (joinpath (root_or_cwd rt st0) ''logs'') (isoformat (today st0)),
               log_file = joinpath (joinpath (joinpath (root_or_cwd rt st0) ''logs'')
                            (isoformat (today st0))) (app @ ''.log''),
               root_logger = RootLogger, logger = getLogger app\<rparr>
    \<and> logger_instance st = Some self
    \<and> root_level st = 10
    \<and> root_handlers st
        = root_handlers st0 @ [FileHandler (log_file self) lf, StreamHandler (sys_stdout st0) lc]
    \<and> sys_stdout st = StreamToLogger RootLogger (Real Stdout)
    \<and> sys_stderr st = StreamToLogger RootLogger (Real Stdout)
    \<and> terminal st = terminal st0
    \<and> clock st = clock st0
    \<and> fs_files st (log_file self) \<noteq> None
    \<and> fs_dirs st = fs_dirs st0 \<union> set (ancestors_and_self (date_folder self))"
  using assms
  by (auto simp: LoggerLHC_init_def Let_def setup_handlers_def FileHandler_open_def
      capture_prints_def StreamToLogger_init_def split: sum.splits if_splits
      dest!: mkdir_parents_made)

lemma self_in_ancestors: "parts p \<noteq> [] \<Longrightarrow> p \<in> set (ancestors_and_self p)"
proof -
  assume "parts p \<noteq> []"
  then have mem: "length (parts p) \<in> set [1..<Suc (length (parts p))]"
    by (cases "parts p") auto
  have eq: "p = (\<lambda>k. p\<lparr>parts := take k (parts p)\<rparr>) (length (parts p))"
    by simp
  show ?thesis
    unfolding ancestors_and_self_def set_map
    using eq mem by (rule image_eqI)
qed

lemma format_record_file_append: "format_record (file_append p s st) r = format_record st r"
  by (simp add: format_record_def file_append_def)

lemma Logger_log_two:
  assumes "root_level st \<le> levelno sev"
    and "root_handlers st = [FileHandler f lf, StreamHandler (Real c) lc]"
  shows "Logger_log d sev lg m st =
     Inr ((if lc \<le> levelno sev
           then terminal_append c (format_record st \<lparr>rec_name = logger_name lg, rec_level = sev, rec_msg = m\<rparr> @ newline)
           else id)
          ((if lf \<le> levelno sev
            then file_append f (format_record st \<lparr>rec_name = logger_name lg, rec_level = sev, rec_msg = m\<rparr> @ newline)
            else id) st))"
  using assms by (simp add: format_record_file_append)

lemma rstrip_all_space: "\<forall>c \<in> set s. isspace c \<Longrightarrow> rstrip s = []"
  by (simp add: rstrip_def)

lemma split_sep_plain: "CHR ''/'' \<notin> set s \<Longrightarrow> split_sep s = [s]"
  by (induction s) auto

lemma parse_root_plain: "CHR ''/'' \<notin> set s \<Longrightarrow> parse_root s = []"
  by (cases s) (auto simp: parse_root_def)

lemma joinpath_plain:
  "CHR ''/'' \<notin> set s \<Longrightarrow> s \<noteq> [] \<Longrightarrow> s \<noteq> ''.'' \<Longrightarrow>
   joinpath p s = \<lparr>anchor = anchor p, parts = parts p @ [s]\<rparr>"
  by (simp add: joinpath_def parse_root_plain parse_parts_def split_sep_plain)

lemma digit_no_slash: "digit n \<noteq> CHR ''/''"
proof -
  have "digit n \<in> set ''0123456789''"
    unfolding digit_def by (rule nth_mem) simp
  then show ?thesis by auto
qed

lemma isoformat_plain: "CHR ''/'' \<notin> set (isoformat d)" "isoformat d \<noteq> []" "isoformat d \<noteq> ''.''"
  by (auto simp: isoformat_def digit_no_slash digit_no_slash[symmetric])

section \<open>Routing by severity\<close>


lemma levelno_ge_10: "10 \<le> levelno sev"
  by (cases sev) simp_all











lemma fresh_startup: "fresh startup"
  by (simp add: fresh_def startup_def)

lemma running_fields:
  "logger_instance running = Some svc" "fs_files running svc_log = Some []"
  "terminal running = (\<lambda>c. [])" "clock running = ''2026-11-04 12:00:00''"
  "log_file svc = svc_log" "logger svc = NamedLogger ''svc''"
  "sys_stdout running = StreamToLogger RootLogger (Real Stdout)"
  "sys_stderr running = StreamToLogger RootLogger (Real Stdout)"
  "root_level running = 10"
  "root_handlers running = [FileHandler svc_log 10, StreamHandler (Real Stdout) 20]"
  by (simp_all add: running_def svc_def startup_def)

lemma terminal_append_fields:
  "root_level (terminal_append c s st) = root_level st"
  "root_handlers (terminal_append c s st) = root_handlers st"
  "fs_files (terminal_append c s st) = fs_files st"
  "clock (terminal_append c s st) = clock st"
  "terminal (terminal_append c s st) = (terminal st)(c := terminal st c @ [s])"
  by (simp_all add: terminal_append_def)

lemma format_record_terminal_append:
  "format_record (terminal_append c s st) r = format_record st r"
  by (simp add: format_record_def terminal_append_def)

lemma shim_write_two:
  assumes "root_level st \<le> 20"
    and "root_handlers st = [FileHandler f lf, StreamHandler (Real c) lc]"
    and "rstrip s \<noteq> []"
  shows "stream_write (Suc d) (StreamToLogger lg (Real c')) s st =
     Inr ((if lc \<le> 20
           then terminal_append c (format_record st \<lparr>rec_name = logger_name lg, rec_level = INFO, rec_msg = rstrip s\<rparr> @ newline)
           else id)
          ((if lf \<le> 20
            then file_append f (format_record st \<lparr>rec_name = logger_name lg, rec_level = INFO, rec_msg = rstrip s\<rparr> @ newline)
            else id) (terminal_append c' (rstrip s @ newline) st)))"
proof -
  let ?st1 = "terminal_append c' (rstrip s @ newline) st"
  have l: "root_level ?st1 \<le> levelno INFO"
    using assms(1) by (simp add: terminal_append_fields)
  have h: "root_handlers ?st1 = [FileHandler f lf, StreamHandler (Real c) lc]"
    using assms(2) by (simp add: terminal_append_fields)
  have "stream_write (Suc d) (StreamToLogger lg (Real c')) s st
        = Logger_log d INFO lg (rstrip s) ?st1"
    using assms(3) by (simp add: Let_def)
  then show ?thesis
    unfolding Logger_log_two[OF l h] by (simp add: format_record_terminal_append)
qed








section \<open>The stream interceptor\<close>

text \<open>
  Claim C9. After a successful first construction, writing the empty string or a string of
  white space only to the intercepted standard output (or standard error) returns and
  leaves the whole state as it was: nothing is written to the terminal and no record
  reaches a handler.
\<close>

theorem blank_write_discarded:
  assumes "fresh st0" and "LoggerLHC_init app rt fl cl st0 = Inr st"
    and "\<forall>c \<in> set s. isspace c"
    and "slot \<in> {sys_stdout st, sys_stderr st}"
  shows "stream_write (Suc d) slot s st = Inr st"
proof -
  have "logger_instance st0 = None"
    using assms(1) by (simp add: fresh_def)
  from init_shape[OF this assms(2)]
  have "slot = StreamToLogger RootLogger (Real Stdout)"
    using assms(4) by auto
  then show ?thesis
    by (simp add: rstrip_all_space[OF assms(3)])
qed

theorem blank_write_discarded_witness:
  "fresh startup
   \<and> LoggerLHC_init ''svc'' (RootStr ''/tmp/x'') ''debug'' ''info'' startup = Inr running
   \<and> list_all isspace ('' '' @ newline)
   \<and> sys_stdout running \<in> {sys_stdout running, sys_stderr running}
   \<and> stream_write (Suc 0) (sys_stdout running) ('' '' @ newline) running = Inr running
   \<and> terminal running Stdout = [] \<and> fs_files running svc_log = Some []"
proof -
  have b: "\<forall>c \<in> set ('' '' @ newline). isspace c"
    by (simp add: isspace_def newline_def)
  have m: "sys_stdout running \<in> {sys_stdout running, sys_stderr running}"
    by simp
  have b': "list_all isspace ('' '' @ newline)"
    by (simp add: isspace_def newline_def)
  have f: "terminal running Stdout = []" "fs_files running svc_log = Some []"
    by (simp_all add: running_fields)
  show ?thesis
    using blank_write_discarded[OF fresh_startup init_startup b m, of 0]
      fresh_startup init_startup b' m f
    by blast
qed

text \<open>
  Claim C10. After a successful first construction in a process whose standard output slot
  held the real channel, the console handler's stream is the value the slot held before it
  was replaced, not the shim now in the slot. Emitting a record through any logger, and so
  through each method of the facade, returns even when not a single call of
  \<open>StreamToLogger.write\<close> is allowed: routing a record never enters the shim.
\<close>

theorem console_handler_keeps_original_stream:
  assumes "fresh st0" and "LoggerLHC_init app rt fl cl st0 = Inr st"
    and "logger_instance st = Some inst"
  shows "(\<exists>lf lc. root_handlers st
            = [FileHandler (log_file inst) lf, StreamHandler (sys_stdout st0) lc])
    \<and> sys_stdout st0 = Real Stdout
    \<and> sys_stdout st = StreamToLogger RootLogger (Real Stdout)
    \<and> (\<exists>st'. Logger_log 0 sev lg m st = Inr st')
    \<and> (\<exists>st'. LoggerLHC_debug 0 inst m st = Inr st')
    \<and> (\<exists>st'. LoggerLHC_info 0 inst m st = Inr st')
    \<and> (\<exists>st'. LoggerLHC_warning 0 inst m st = Inr st')
    \<and> (\<exists>st'. LoggerLHC_error 0 inst m st = Inr st')"
proof -
  have n: "logger_instance st0 = None" and h0: "root_handlers st0 = []"
    and o: "sys_stdout st0 = Real Stdout"
    using assms(1) by (simp_all add: fresh_def)
  from init_shape[OF n assms(2)] assms(3) h0
  obtain lf lc where h: "root_handlers st
            = [FileHandler (log_file inst) lf, StreamHandler (sys_stdout st0) lc]"
    and l: "root_level st = 10"
    and s: "sys_stdout st = StreamToLogger RootLogger (Real Stdout)"
    by auto
  have lvl: "root_level st \<le> levelno v" for v
    using l levelno_ge_10[of v] by simp
  have e: "\<exists>st'. Logger_log 0 v g m st = Inr st'" for v g
    unfolding Logger_log_two[OF lvl h[unfolded o]] by blast
  show ?thesis
    unfolding LoggerLHC_debug_def LoggerLHC_info_def LoggerLHC_warning_def LoggerLHC_error_def
    using h o s e by blast
qed

theorem console_handler_keeps_original_stream_witness:
  "fresh startup
   \<and> LoggerLHC_init ''svc'' (RootStr ''/tmp/x'') ''debug'' ''info'' startup = Inr running
   \<and> logger_instance running = Some svc
   \<and> (\<exists>lf lc. root_handlers running
            = [FileHandler (log_file svc) lf, StreamHandler (sys_stdout startup) lc])
   \<and> sys_stdout startup = Real Stdout
   \<and> sys_stdout running = StreamToLogger RootLogger (Real Stdout)
   \<and> (\<exists>st'. LoggerLHC_error 0 svc ''boom'' running = Inr st')"
  using console_handler_keeps_original_stream[OF fresh_startup init_startup running_fields(1),
      of ERROR RootLogger "''boom''"]
    fresh_startup init_startup running_fields(1)
  by blast

section \<open>The shortcut before and after construction\<close>

text \<open>
  Claim C5. In a state without a published instance each of \<open>log.info\<close>, \<open>log.debug\<close>,
  \<open>log.warning\<close> and \<open>log.error\<close> raises \<open>RuntimeError\<close> with the message
  "Logger not initialized! ..." and leaves the state as it was. After a successful first
  construction each of them does what the instance's method of the same name does with the
  same message, and returns without an exception.
\<close>

theorem shortcut_needs_instance:
  assumes "logger_instance u = None"
    and "fresh st0" and "LoggerLHC_init app rt fl cl st0 = Inr st"
    and "logger_instance st = Some inst"
  shows "LogHelper_info d m u
           = Inl (RuntimeError ''Logger not initialized! Call LoggerLHC(app_name, ...) first.'', u)
    \<and> LogHelper_debug d m u
           = Inl (RuntimeError ''Logger not initialized! Call LoggerLHC(app_name, ...) first.'', u)
    \<and> LogHelper_warning d m u
           = Inl (RuntimeError ''Logger not initialized! Call LoggerLHC(app_name, ...) first.'', u)
    \<and> LogHelper_error d m u
           = Inl (RuntimeError ''Logger not initialized! Call LoggerLHC(app_name, ...) first.'', u)
    \<and> LogHelper_info d m st = LoggerLHC_info d inst m st
    \<and> LogHelper_debug d m st = LoggerLHC_debug d inst m st
    \<and> LogHelper_warning d m st = LoggerLHC_warning d inst m st
    \<and> LogHelper_error d m st = LoggerLHC_error d inst m st
    \<and> (\<exists>st'. LogHelper_info d m st = Inr st')
    \<and> (\<exists>st'. LogHelper_debug d m st = Inr st')
    \<and> (\<exists>st'. LogHelper_warning d m st = Inr st')
    \<and> (\<exists>st'. LogHelper_error d m st = Inr st')"
proof -
  have u: "LogHelper_info d m u
           = Inl (RuntimeError ''Logger not initialized! Call LoggerLHC(app_name, ...) first.'', u)"
    "LogHelper_debug d m u
           = Inl (RuntimeError ''Logger not initialized! Call LoggerLHC(app_name, ...) first.'', u)"
    "LogHelper_warning d m u
           = Inl (RuntimeError ''Logger not initialized! Call LoggerLHC(app_name, ...) first.'', u)"
    "LogHelper_error d m u
           = Inl (RuntimeError ''Logger not initialized! Call LoggerLHC(app_name, ...) first.'', u)"
    using assms(1)
    by (simp_all add: LogHelper_info_def LogHelper_debug_def LogHelper_warning_def
        LogHelper_error_def log_func_def)
  have f: "LogHelper_info d m st = LoggerLHC_info d inst m st"
    "LogHelper_debug d m st = LoggerLHC_debug d inst m st"
    "LogHelper_warning d m st = LoggerLHC_warning d inst m st"
    "LogHelper_error d m st = LoggerLHC_error d inst m st"
    using assms(4)
    by (simp_all add: LogHelper_info_def LogHelper_debug_def LogHelper_warning_def
        LogHelper_error_def log_func_def lower_examples Let_def)
  have n: "logger_instance st0 = None" and h0: "root_handlers st0 = []"
    and o: "sys_stdout st0 = Real Stdout"
    using assms(2) by (simp_all add: fresh_def)
  from init_shape[OF n assms(3)] assms(4) h0 o
  obtain lf lc where h: "root_handlers st
            = [FileHandler (log_file inst) lf, StreamHandler (Real Stdout) lc]"
    and l: "root_level st = 10"
    by auto
  have lvl: "root_level st \<le> levelno v" for v
    using l levelno_ge_10[of v] by simp
  have e: "\<exists>st'. Logger_log d v g m st = Inr st'" for v g
    unfolding Logger_log_two[OF lvl h] by blast
  have r: "\<exists>st'. LoggerLHC_info d inst m st = Inr st'"
    "\<exists>st'. LoggerLHC_debug d inst m st = Inr st'"
    "\<exists>st'. LoggerLHC_warning d inst m st = Inr st'"
    "\<exists>st'. LoggerLHC_error d inst m st = Inr st'"
    unfolding LoggerLHC_debug_def LoggerLHC_info_def LoggerLHC_warning_def LoggerLHC_error_def
    using e by blast+
  show ?thesis
    using u f r by simp
qed

theorem shortcut_needs_instance_witness:
  "logger_instance startup = None
   \<and> fresh startup
   \<and> LoggerLHC_init ''svc'' (RootStr ''/tmp/x'') ''debug'' ''info'' startup = Inr running
   \<and> logger_instance running = Some svc
   \<and> LogHelper_warning 0 ''early'' startup
        = Inl (RuntimeError ''Logger not initialized! Call LoggerLHC(app_name, ...) first.'', startup)
   \<and> LogHelper_warning 0 ''late'' running = LoggerLHC_warning 0 svc ''late'' running
   \<and> (\<exists>st'. LogHelper_warning 0 ''late'' running = Inr st')"
  using shortcut_needs_instance[OF startup_fields(1) fresh_startup init_startup running_fields(1),
      of 0 "''early''"]
    shortcut_needs_instance[OF startup_fields(1) fresh_startup init_startup running_fields(1),
      of 0 "''late''"]
    startup_fields(1) fresh_startup init_startup running_fields(1)
  by blast

section \<open>What the shims do with a captured write\<close>

lemma write_running:
  assumes "rstrip s = t" and "t \<noteq> []"
  shows "stream_write (Suc 0) (StreamToLogger RootLogger (Real Stdout)) s running = Inr (after_write t)"
proof -
  have l: "root_level running \<le> 20"
    by (simp add: running_fields)
  have n: "rstrip s \<noteq> []"
    using assms by simp
  show ?thesis
    unfolding shim_write_two[OF l running_fields(10) n] assms(1) after_write_def
    by (simp add: format_record_def running_fields)
qed

text \<open>
  Claim C1. With both thresholds at or below \<open>INFO\<close>, one write of \<open>hello\<close> to the
  intercepted standard output is meant to give one line on the real terminal and one record
  in the file. The file does get one record, but the terminal gets two lines: the echo
  \<open>hello\<close> written by the shim, and the formatted record written by the console handler,
  which hangs on the same root logger the shim logs through.
\<close>

theorem captured_text_on_terminal_twice:
  "stream_write (Suc 0) (sys_stdout running) ''hello'' running = Inr (after_write ''hello'')
   \<and> terminal (after_write ''hello'') Stdout
       = [''hello'' @ newline, ''2026-11-04 12:00:00 [INFO] [root] hello'' @ newline]
   \<and> fs_files (after_write ''hello'') svc_log
       = Some [''2026-11-04 12:00:00 [INFO] [root] hello'' @ newline]"
proof -
  have r: "rstrip ''hello'' = ''hello''"
    by (simp add: rstrip_def isspace_def)
  have w: "stream_write (Suc 0) (sys_stdout running) ''hello'' running = Inr (after_write ''hello'')"
    unfolding running_fields(7) by (rule write_running[OF r]) simp
  have t: "terminal (after_write ''hello'') Stdout
       = [''hello'' @ newline, ''2026-11-04 12:00:00 [INFO] [root] hello'' @ newline]"
    by (simp add: after_write_def terminal_append_def file_append_def running_fields)
  have f: "fs_files (after_write ''hello'') svc_log
       = Some [''2026-11-04 12:00:00 [INFO] [root] hello'' @ newline]"
    by (simp add: after_write_def terminal_append_def file_append_def running_fields)
  show ?thesis
    using w t f by blast
qed

text \<open>
  Claim C6. Each shim is meant to pass writes through to its own original channel. Both
  shims are built without a stream argument, so the shim in the standard error slot holds
  the original standard output: a write to the intercepted standard error leaves the real
  standard error untouched and lands on the real standard output.
\<close>

theorem stderr_shim_writes_to_stdout:
  "sys_stderr running = StreamToLogger RootLogger (Real Stdout)
   \<and> stream_write (Suc 0) (sys_stderr running) ''fault'' running = Inr (after_write ''fault'')
   \<and> terminal (after_write ''fault'') Stderr = []
   \<and> terminal (after_write ''fault'') Stdout
       = [''fault'' @ newline, ''2026-11-04 12:00:00 [INFO] [root] fault'' @ newline]"
proof -
  have r: "rstrip ''fault'' = ''fault''"
    by (simp add: rstrip_def isspace_def)
  have w: "stream_write (Suc 0) (sys_stderr running) ''fault'' running = Inr (after_write ''fault'')"
    unfolding running_fields(8) by (rule write_running[OF r]) simp
  have t: "terminal (after_write ''fault'') Stderr = []"
    "terminal (after_write ''fault'') Stdout
       = [''fault'' @ newline, ''2026-11-04 12:00:00 [INFO] [root] fault'' @ newline]"
    by (simp_all add: after_write_def terminal_append_def file_append_def running_fields)
  show ?thesis
    using running_fields(8) w t by blast
qed

section \<open>The log file's path\<close>

text \<open>
  Claim C4, as stated, fails: for the application \<open>svc\<close>, the root \<open>/tmp/x\<close> and the date
  2026-11-04 the constructor succeeds, the log file is not \<open>/tmp/x/2026-11-04/svc.log\<close>,
  no file exists at that path, and the log file is \<open>/tmp/x/logs/2026-11-04/svc.log\<close>.
\<close>

theorem log_file_counterexample:
  "LoggerLHC_init ''svc'' (RootStr ''/tmp/x'') ''debug'' ''info'' startup = Inr running
   \<and> map_option log_file (logger_instance running) \<noteq> Some (Path ''/tmp/x/2026-11-04/svc.log'')
   \<and> fs_files running (Path ''/tmp/x/2026-11-04/svc.log'') = None
   \<and> map_option log_file (logger_instance running) = Some (Path ''/tmp/x/logs/2026-11-04/svc.log'')"
  using init_startup
  by (simp add: running_def svc_def svc_log_def Path_def parse_root_def parse_parts_def)

text \<open>
  Claim C4, amended. For every successful first construction with an application name \<open>a\<close>
  that contains no slash and an explicit, non-empty log root \<open>r\<close>, the log file is
  \<open>r/logs/YYYY-MM-DD/a.log\<close>: the components of \<open>r\<close>, then \<open>logs\<close>, the ISO form of the date
  at construction time, and \<open>a.log\<close>. Its directory exists afterwards, the file exists, and
  the file handler registered on the root logger writes to that path.
\<close>

theorem log_file_under_logs:
  assumes "logger_instance st0 = None"
    and "LoggerLHC_init app (RootStr r) fl cl st0 = Inr st"
    and "r \<noteq> []" and "CHR ''/'' \<notin> set app"
  shows "\<exists>inst lf.
      logger_instance st = Some inst
    \<and> log_file inst = \<lparr>anchor = anchor (Path r),
                        parts = parts (Path r) @ [''logs'', isoformat (today st0), app @ ''.log'']\<rparr>
    \<and> date_folder inst \<in> fs_dirs st
    \<and> fs_files st (log_file inst) \<noteq> None
    \<and> FileHandler (log_file inst) lf \<in> set (root_handlers st)"
proof -
  let ?lr = "joinpath (root_or_cwd (RootStr r) st0) ''logs''"
  let ?df = "joinpath ?lr (isoformat (today st0))"
  let ?lf = "joinpath ?df (app @ ''.log'')"
  have lr: "?lr = \<lparr>anchor = anchor (Path r), parts = parts (Path r) @ [''logs'']\<rparr>"
    using assms(3) by (simp add: joinpath_examples)
  have df: "?df = \<lparr>anchor = anchor (Path r), parts = parts (Path r) @ [''logs'', isoformat (today st0)]\<rparr>"
    unfolding lr by (simp add: joinpath_plain[OF isoformat_plain])
  have a: "CHR ''/'' \<notin> set (app @ ''.log'')" "app @ ''.log'' \<noteq> []" "app @ ''.log'' \<noteq> ''.''"
    using assms(4) by auto
  have lf: "?lf = \<lparr>anchor = anchor (Path r),
                   parts = parts (Path r) @ [''logs'', isoformat (today st0), app @ ''.log'']\<rparr>"
    unfolding df by (simp add: joinpath_plain[OF a])
  have mem: "?df \<in> set (ancestors_and_self ?df)"
    by (rule self_in_ancestors) (unfold df, simp)
  from init_shape[OF assms(1,2)] obtain lf lc self where
    s: "self = \<lparr>app_name = app, log_root = ?lr, date_folder = ?df, log_file = ?lf,
                root_logger = RootLogger, logger = getLogger app\<rparr>"
    and i: "logger_instance st = Some self"
    and h: "root_handlers st
        = root_handlers st0 @ [FileHandler (log_file self) lf, StreamHandler (sys_stdout st0) lc]"
    and f: "fs_files st (log_file self) \<noteq> None"
    and d: "fs_dirs st = fs_dirs st0 \<union> set (ancestors_and_self (date_folder self))"
    by blast
  have 1: "log_file self = \<lparr>anchor = anchor (Path r),
                   parts = parts (Path r) @ [''logs'', isoformat (today st0), app @ ''.log'']\<rparr>"
    using lf by (simp add: s)
  have 2: "date_folder self \<in> fs_dirs st"
    using mem by (simp add: d s)
  have 3: "FileHandler (log_file self) lf \<in> set (root_handlers st)"
    by (simp add: h)
  show ?thesis
    using i 1 2 f 3 by blast
qed

theorem log_file_under_logs_witness:
  "logger_instance startup = None
   \<and> LoggerLHC_init ''svc'' (RootStr ''/tmp/x'') ''debug'' ''info'' startup = Inr running
   \<and> ''/tmp/x'' \<noteq> [] \<and> CHR ''/'' \<notin> set ''svc''
   \<and> map_option log_file (logger_instance running)
       = Some \<lparr>anchor = ''/'', parts = [''tmp'', ''x'', ''logs'', ''2026-11-04'', ''svc.log'']\<rparr>
   \<and> fs_files running \<lparr>anchor = ''/'', parts = [''tmp'', ''x'', ''logs'', ''2026-11-04'', ''svc.log'']\<rparr>
       \<noteq> None"
proof -
  have 3: "''/tmp/x'' \<noteq> []" and 4: "CHR ''/'' \<notin> set ''svc''"
    by simp_all
  from log_file_under_logs[OF startup_fields(1) init_startup 3 4]
  obtain inst lf where i: "logger_instance running = Some inst"
    and l: "log_file inst = \<lparr>anchor = anchor (Path ''/tmp/x''),
              parts = parts (Path ''/tmp/x'') @ [''logs'', isoformat (today startup), ''svc'' @ ''.log'']\<rparr>"
    and f: "fs_files running (log_file inst) \<noteq> None"
    by blast
  have l': "log_file inst
      = \<lparr>anchor = ''/'', parts = [''tmp'', ''x'', ''logs'', ''2026-11-04'', ''svc.log'']\<rparr>"
    unfolding l by (simp add: Path_example startup_fields isoformat_example)
  show ?thesis
    using startup_fields(1) init_startup 3 4 i f l' by simp
qed

end
